theory Spec2Isabelle
  imports
    Complex_Main
    "HOL-Library.Multiset"
    "HOL-Library.AList"
    "HOL-Library.Char_ord"
    "HOL-Library.List_Lexorder"
begin

section \<open>The expense tracker's persistence store (\<^verbatim>\<open>expense_tracker.py\<close>)\<close>

text \<open>
  The class \<^verbatim>\<open>ExpenseTrackerDB\<close> runs parameterised SQL statements over one SQLite
  connection. The embedding gives every statement of the source a function on the tables
  it reads or writes, and every method a function that passes the object's state along.

  Conventions of the embedding:
  \<^item> a \<^verbatim>\<open>TEXT\<close> value is a \<open>string\<close>; the engine compares \<^verbatim>\<open>TEXT\<close> bytewise
    (the BINARY collation), which is the lexicographic order on \<open>char list\<close>;
  \<^item> a Python \<^verbatim>\<open>float\<close> is a \<open>py_float\<close>: a finite number, an infinity or NaN. The
    finite values are not restricted to the doubles, so what holds for every
    \<open>py_float\<close> holds for every float. The engine stores a float other than NaN
    unchanged in a \<^verbatim>\<open>REAL\<close> column and binds NaN as NULL. The aggregate
    \<^verbatim>\<open>SUM\<close> belongs to the engine and is a parameter of the query that uses it;
    \<open>ieee_sum\<close> is the aggregate of an engine that adds doubles;
  \<^item> a row id is an unbounded \<open>int\<close>;
  \<^item> a table is the list of its rows in ascending row id, the order of a table scan;
    a table that was never created is \<open>None\<close>;
  \<^item> \<^verbatim>\<open>commit\<close> changes nothing that the same connection can observe and is not
    modelled; a statement's effect is visible to the next statement at once;
  \<^item> \<^verbatim>\<open>sqlite3.Error\<close> is raised by a statement exactly when the file is not a
    database, a table it names does not exist, or it would write NULL to the column
    \<^verbatim>\<open>amount REAL NOT NULL\<close>; every \<^verbatim>\<open>except sqlite3.Error\<close>
    of the source is a branch on that outcome.
\<close>

subsection \<open>Tables\<close>

text \<open>
  \<^verbatim>\<open>categories (id INTEGER PRIMARY KEY AUTOINCREMENT, name TEXT NOT NULL UNIQUE)\<close>
\<close>

record category =
  cat_id :: int
  cat_name :: string

text \<open>
  \<^verbatim>\<open>expenses (id INTEGER PRIMARY KEY AUTOINCREMENT, amount REAL NOT NULL,
  category_id INTEGER, date TEXT NOT NULL, description TEXT, FOREIGN KEY ...)\<close>.
  The column \<^verbatim>\<open>category_id\<close> may hold NULL, which is \<open>None\<close>. The connection never
  switches foreign keys on, so the engine does not check the reference.
\<close>

datatype py_float = Finite real | PosInf | NegInf | NaN


record expense =
  exp_id :: int
  amount :: py_float
  category_id :: "int option"
  date :: string
  description :: string

text \<open>
  The two tables and the two counters that \<^verbatim>\<open>AUTOINCREMENT\<close> keeps in
  \<^verbatim>\<open>sqlite_sequence\<close> (the largest row id ever handed out for the table).
\<close>

record tables =
  categories :: "category list option"
  expenses :: "expense list option"
  seq_categories :: int
  seq_expenses :: int

text \<open>
  What a connection is attached to. \<^verbatim>\<open>sqlite3.connect\<close> opens the file lazily: on a
  file that is not an SQLite database the connection is made and every statement raises.
\<close>

datatype db_file = NotADatabase | Database tables

datatype sqlite_error = DatabaseError string | OperationalError string | IntegrityError string

fun str_error :: "sqlite_error \<Rightarrow> string" where
  "str_error (DatabaseError m) = m"
| "str_error (OperationalError m) = m"
| "str_error (IntegrityError m) = m"

text \<open>
  The object: \<open>conn\<close> is \<^verbatim>\<open>self.conn\<close> (\<open>None\<close> for Python's \<^verbatim>\<open>None\<close>, otherwise
  the database behind the connection). \<open>dialogs\<close> collects the calls of
  \<^verbatim>\<open>messagebox.showerror(title, message)\<close> and \<open>stdout\<close> the lines printed, in order.
\<close>

record ExpenseTrackerDB =
  conn :: "db_file option"
  dialogs :: "(string \<times> string) list"
  stdout :: "string list"

definition showerror :: "string \<Rightarrow> string \<Rightarrow> ExpenseTrackerDB \<Rightarrow> ExpenseTrackerDB" where
  "showerror title message self = self\<lparr>dialogs := dialogs self @ [(title, message)]\<rparr>"

definition print :: "string \<Rightarrow> ExpenseTrackerDB \<Rightarrow> ExpenseTrackerDB" where
  "print line self = self\<lparr>stdout := stdout self @ [line]\<rparr>"

subsection \<open>Statements\<close>

text \<open>Resolving a table name when a statement is prepared.\<close>

definition table_categories :: "db_file \<Rightarrow> sqlite_error + category list" where
  "table_categories db =
     (case db of
        NotADatabase \<Rightarrow> Inl (DatabaseError ''file is not a database'')
      | Database tb \<Rightarrow>
          (case categories tb of
             None \<Rightarrow> Inl (OperationalError ''no such table: categories'')
           | Some cs \<Rightarrow> Inr cs))"

definition table_expenses :: "db_file \<Rightarrow> sqlite_error + expense list" where
  "table_expenses db =
     (case db of
        NotADatabase \<Rightarrow> Inl (DatabaseError ''file is not a database'')
      | Database tb \<Rightarrow>
          (case expenses tb of
             None \<Rightarrow> Inl (OperationalError ''no such table: expenses'')
           | Some es \<Rightarrow> Inr es))"

text \<open>
  The row id of an inserted row of an \<^verbatim>\<open>AUTOINCREMENT\<close> table: one more than the
  largest row id in the table (1 for an empty table), and more than the counter.
\<close>

definition new_rowid :: "int list \<Rightarrow> int \<Rightarrow> int" where
  "new_rowid ids seq =
     max (case ids of [] \<Rightarrow> 1 | i # is \<Rightarrow> fold max is i + 1) (seq + 1)"

text \<open>\<^verbatim>\<open>CREATE TABLE IF NOT EXISTS categories (...)\<close>\<close>

definition create_categories :: "db_file \<Rightarrow> sqlite_error + db_file" where
  "create_categories db =
     (case db of
        NotADatabase \<Rightarrow> Inl (DatabaseError ''file is not a database'')
      | Database tb \<Rightarrow>
          (case categories tb of
             None \<Rightarrow> Inr (Database (tb\<lparr>categories := Some []\<rparr>))
           | Some cs \<Rightarrow> Inr db))"

text \<open>\<^verbatim>\<open>CREATE TABLE IF NOT EXISTS expenses (...)\<close>\<close>

definition create_expenses :: "db_file \<Rightarrow> sqlite_error + db_file" where
  "create_expenses db =
     (case db of
        NotADatabase \<Rightarrow> Inl (DatabaseError ''file is not a database'')
      | Database tb \<Rightarrow>
          (case expenses tb of
             None \<Rightarrow> Inr (Database (tb\<lparr>expenses := Some []\<rparr>))
           | Some es \<Rightarrow> Inr db))"

text \<open>
  \<^verbatim>\<open>INSERT OR IGNORE INTO categories (name) VALUES (?)\<close>: a row whose name is already
  in the table violates UNIQUE and is skipped. The engine draws the row id before it
  checks the constraint, so the counter moves for a skipped row as well.
\<close>

definition insert_or_ignore_category :: "db_file \<Rightarrow> string \<Rightarrow> sqlite_error + db_file" where
  "insert_or_ignore_category db name =
     (case db of
        NotADatabase \<Rightarrow> Inl (DatabaseError ''file is not a database'')
      | Database tb \<Rightarrow>
          (case categories tb of
             None \<Rightarrow> Inl (OperationalError ''no such table: categories'')
           | Some cs \<Rightarrow>
               (let v = new_rowid (map cat_id cs) (seq_categories tb) in
                if name \<in> set (map cat_name cs)
                then Inr (Database (tb\<lparr>seq_categories := v\<rparr>))
                else Inr (Database (tb\<lparr>categories := Some (cs @ [\<lparr>cat_id = v, cat_name = name\<rparr>]),
                                        seq_categories := v\<rparr>)))))"

text \<open>\<^verbatim>\<open>SELECT id FROM categories WHERE name = ?\<close>, then \<^verbatim>\<open>fetchone()\<close>.\<close>

definition select_category_id :: "db_file \<Rightarrow> string \<Rightarrow> sqlite_error + int option" where
  "select_category_id db name =
     (case table_categories db of
        Inl e \<Rightarrow> Inl e
      | Inr cs \<Rightarrow> Inr (map_option cat_id (find (\<lambda>c. cat_name c = name) cs)))"

text \<open>
  \<^verbatim>\<open>INSERT INTO expenses (amount, category_id, date, description) VALUES (?, ?, ?, ?)\<close>.
  A NaN amount is bound as NULL, which \<^verbatim>\<open>amount REAL NOT NULL\<close> refuses: the statement
  raises \<^verbatim>\<open>sqlite3.IntegrityError\<close> and writes nothing.
\<close>

definition insert_expense ::
  "db_file \<Rightarrow> py_float \<Rightarrow> int \<Rightarrow> string \<Rightarrow> string \<Rightarrow> sqlite_error + db_file" where
  "insert_expense db amt cid d descr =
     (case db of
        NotADatabase \<Rightarrow> Inl (DatabaseError ''file is not a database'')
      | Database tb \<Rightarrow>
          (case expenses tb of
             None \<Rightarrow> Inl (OperationalError ''no such table: expenses'')
           | Some es \<Rightarrow>
               (let v = new_rowid (map exp_id es) (seq_expenses tb) in
                if amt = NaN
                then Inl (IntegrityError ''NOT NULL constraint failed: expenses.amount'')
                else
                Inr (Database (tb\<lparr>expenses := Some (es @
                       [\<lparr>exp_id = v, amount = amt, category_id = Some cid,
                         date = d, description = descr\<rparr>]),
                     seq_expenses := v\<rparr>)))))"

text \<open>
  \<^verbatim>\<open>UPDATE expenses SET amount = ?, category_id = ?, date = ?, description = ? WHERE id = ?\<close>.
  The \<^verbatim>\<open>NOT NULL\<close> constraint is checked for each row that the statement changes: a NaN
  amount raises \<^verbatim>\<open>sqlite3.IntegrityError\<close> when a row has the id, and the statement
  writes nothing.
\<close>

definition update_row :: "py_float \<Rightarrow> int \<Rightarrow> string \<Rightarrow> string \<Rightarrow> int \<Rightarrow> expense \<Rightarrow> expense" where
  "update_row amt cid d descr i e =
     (if exp_id e = i
      then e\<lparr>amount := amt, category_id := Some cid, date := d, description := descr\<rparr>
      else e)"

definition update_expenses ::
  "db_file \<Rightarrow> py_float \<Rightarrow> int \<Rightarrow> string \<Rightarrow> string \<Rightarrow> int \<Rightarrow> sqlite_error + db_file" where
  "update_expenses db amt cid d descr i =
     (case db of
        NotADatabase \<Rightarrow> Inl (DatabaseError ''file is not a database'')
      | Database tb \<Rightarrow>
          (case expenses tb of
             None \<Rightarrow> Inl (OperationalError ''no such table: expenses'')
           | Some es \<Rightarrow>
               if amt = NaN \<and> i \<in> set (map exp_id es)
               then Inl (IntegrityError ''NOT NULL constraint failed: expenses.amount'')
               else
               Inr (Database (tb\<lparr>expenses := Some (map (update_row amt cid d descr i) es)\<rparr>))))"

text \<open>\<^verbatim>\<open>DELETE FROM expenses WHERE id = ?\<close>\<close>

definition delete_from_expenses :: "db_file \<Rightarrow> int \<Rightarrow> sqlite_error + db_file" where
  "delete_from_expenses db i =
     (case db of
        NotADatabase \<Rightarrow> Inl (DatabaseError ''file is not a database'')
      | Database tb \<Rightarrow>
          (case expenses tb of
             None \<Rightarrow> Inl (OperationalError ''no such table: expenses'')
           | Some es \<Rightarrow>
               Inr (Database (tb\<lparr>expenses := Some (filter (\<lambda>e. exp_id e \<noteq> i) es)\<rparr>))))"

text \<open>
  \<^verbatim>\<open>FROM expenses e JOIN categories c ON e.category_id = c.id\<close>: the inner join, as the
  nested loop over the expenses and, for each, the categories with its id. A NULL
  \<^verbatim>\<open>category_id\<close> equals no id.
\<close>

definition join_rows :: "expense list \<Rightarrow> category list \<Rightarrow> (expense \<times> category) list" where
  "join_rows es cs =
     concat (map (\<lambda>e. map (Pair e) (filter (\<lambda>c. category_id e = Some (cat_id c)) cs)) es)"

definition from_expenses_join_categories :: "db_file \<Rightarrow> sqlite_error + (expense \<times> category) list" where
  "from_expenses_join_categories db =
     (case table_expenses db of
        Inl e \<Rightarrow> Inl e
      | Inr es \<Rightarrow>
          (case table_categories db of
             Inl e \<Rightarrow> Inl e
           | Inr cs \<Rightarrow> Inr (join_rows es cs)))"

text \<open>
  The entries of the source's list \<^verbatim>\<open>conditions\<close>, each with its entry of \<^verbatim>\<open>params\<close>:
  \<^verbatim>\<open>e.date >= ?\<close>, \<^verbatim>\<open>e.date <= ?\<close>, \<^verbatim>\<open>c.name = ?\<close>.
\<close>

datatype condition = Date_ge | Date_le | Name_eq

fun holds :: "condition \<times> string \<Rightarrow> expense \<times> category \<Rightarrow> bool" where
  "holds (Date_ge, p) (e, c) = (p \<le> date e)"
| "holds (Date_le, p) (e, c) = (date e \<le> p)"
| "holds (Name_eq, p) (e, c) = (cat_name c = p)"

text \<open>
  \<^verbatim>\<open>if start_date: conditions.append(...); params.append(start_date)\<close>: an optional
  argument adds its condition when it is truthy, that is neither \<^verbatim>\<open>None\<close> nor the
  empty string.
\<close>

fun append_if :: "condition \<Rightarrow> string option \<Rightarrow> (condition \<times> string) list \<Rightarrow> (condition \<times> string) list" where
  "append_if k None conds = conds"
| "append_if k (Some p) conds = (if p = [] then conds else conds @ [(k, p)])"

text \<open>\<^verbatim>\<open>if conditions: query += " WHERE " + " AND ".join(conditions)\<close>\<close>

definition where_clause :: "(condition \<times> string) list \<Rightarrow> (expense \<times> category) list \<Rightarrow> (expense \<times> category) list" where
  "where_clause conds rows =
     (if conds = [] then rows else filter (\<lambda>r. list_all (\<lambda>k. holds k r) conds) rows)"

text \<open>
  \<^verbatim>\<open>ORDER BY e.date DESC\<close>: newest first; rows with the same date stay in scan order.
\<close>

definition order_by_date_desc :: "(expense \<times> category) list \<Rightarrow> (expense \<times> category) list" where
  "order_by_date_desc rows = rev (sort_key (\<lambda>(e, c). date e) (rev rows))"

text \<open>\<^verbatim>\<open>SELECT e.id, e.amount, c.name, e.date, e.description\<close>\<close>

type_synonym expense_tuple = "int \<times> py_float \<times> string \<times> string \<times> string"

fun select_expense :: "expense \<times> category \<Rightarrow> expense_tuple" where
  "select_expense (e, c) = (exp_id e, amount e, cat_name c, date e, description e)"

text \<open>
  \<^verbatim>\<open>SELECT c.name, SUM(e.amount) ... GROUP BY c.name ORDER BY c.name ASC\<close>: the rows are
  sorted by the name, rows of one name staying in scan order, every run of one name is
  one group, and the aggregate turns the amounts of a group, in that order, into the
  value of its row (the engine's sorter is taken to keep the rows of a group in scan
  order). The aggregate \<open>sql_sum\<close> is the engine's \<^verbatim>\<open>SUM\<close> over
  \<^verbatim>\<open>REAL\<close> values.
\<close>

fun group_runs :: "(string \<times> 'a) list \<Rightarrow> (string \<times> 'a list) list" where
  "group_runs [] = []"
| "group_runs ((k, v) # rows) =
     (case group_runs rows of
        [] \<Rightarrow> [(k, [v])]
      | (k', vs) # groups \<Rightarrow>
          (if k = k' then (k, v # vs) # groups else (k, [v]) # (k', vs) # groups))"

definition group_by_name_sum ::
  "(py_float list \<Rightarrow> 'v) \<Rightarrow> (expense \<times> category) list \<Rightarrow> (string \<times> 'v) list" where
  "group_by_name_sum sql_sum rows =
     map (\<lambda>(k, vs). (k, sql_sum vs))
       (group_runs (sort_key fst (map (\<lambda>(e, c). (cat_name c, amount e)) rows)))"

text \<open>
  \<^verbatim>\<open>{row[0]: row[1] for row in rows}\<close>: a Python dict keeps its keys in the order of
  their first insertion, and a later value replaces an earlier one in place.
\<close>

definition dict_of_rows :: "('k \<times> 'v) list \<Rightarrow> ('k \<times> 'v) list" where
  "dict_of_rows rows = foldl (\<lambda>d (k, v). AList.update k v d) [] rows"

subsection \<open>Methods of \<^verbatim>\<open>ExpenseTrackerDB\<close>\<close>

text \<open>
  \<^verbatim>\<open>_connect\<close>: the argument is what \<^verbatim>\<open>sqlite3.connect(self.db_name)\<close> does, raise or
  return a connection to the file of that name.
\<close>

definition connect :: "sqlite_error + db_file \<Rightarrow> ExpenseTrackerDB \<Rightarrow> ExpenseTrackerDB" where
  "connect opened self =
     (case opened of
        Inr db \<Rightarrow> self\<lparr>conn := Some db\<rparr>
      | Inl e \<Rightarrow>
          showerror ''Database Error'' (''Failed to connect to database: '' @ str_error e)
            (self\<lparr>conn := None\<rparr>))"

text \<open>
  \<^verbatim>\<open>_insert_default_categories\<close>: the loop over the default names, each insert in its own
  \<^verbatim>\<open>try\<close>. The helper is called on an open connection only, whose database is \<open>db\<close>.
\<close>

definition default_categories :: "string list" where
  "default_categories =
     [''Food'', ''Transport'', ''Utilities'', ''Rent'', ''Shopping'', ''Entertainment'',
      ''Salary'', ''Other'']"

fun insert_categories :: "string list \<Rightarrow> db_file \<Rightarrow> ExpenseTrackerDB \<Rightarrow> ExpenseTrackerDB" where
  "insert_categories [] db self = self\<lparr>conn := Some db\<rparr>"
| "insert_categories (category # rest) db self =
     (case insert_or_ignore_category db category of
        Inr db' \<Rightarrow> insert_categories rest db' self
      | Inl e \<Rightarrow>
          insert_categories rest db
            (print (''Error inserting default category '' @ [CHR 0x27] @ category @ [CHR 0x27]
                      @ '': '' @ str_error e) self))"

definition insert_default_categories :: "db_file \<Rightarrow> ExpenseTrackerDB \<Rightarrow> ExpenseTrackerDB" where
  "insert_default_categories db self = insert_categories default_categories db self"

text \<open>\<^verbatim>\<open>_create_tables\<close>, on an open connection whose database is \<open>db\<close>.\<close>

definition create_tables :: "db_file \<Rightarrow> ExpenseTrackerDB \<Rightarrow> ExpenseTrackerDB" where
  "create_tables db self =
     (case create_categories db of
        Inl e \<Rightarrow> showerror ''Database Error'' (''Failed to create tables: '' @ str_error e) self
      | Inr db1 \<Rightarrow>
          (case create_expenses db1 of
             Inl e \<Rightarrow> showerror ''Database Error'' (''Failed to create tables: '' @ str_error e)
                        (self\<lparr>conn := Some db1\<rparr>)
           | Inr db2 \<Rightarrow> insert_default_categories db2 self))"

text \<open>
  Initialization, the second half of \<^verbatim>\<open>__init__\<close>:
  \<^verbatim>\<open>if self.conn: self._create_tables()\<close>.
\<close>

definition initialize :: "ExpenseTrackerDB \<Rightarrow> ExpenseTrackerDB" where
  "initialize self = (case conn self of None \<Rightarrow> self | Some db \<Rightarrow> create_tables db self)"

text \<open>\<^verbatim>\<open>__init__\<close>\<close>

definition init :: "sqlite_error + db_file \<Rightarrow> ExpenseTrackerDB" where
  "init opened = initialize (connect opened \<lparr>conn = None, dialogs = [], stdout = []\<rparr>)"

text \<open>\<^verbatim>\<open>_get_category_id\<close>, on an open connection whose database is \<open>db\<close>.\<close>

definition get_category_id :: "db_file \<Rightarrow> string \<Rightarrow> sqlite_error + int option" where
  "get_category_id db category_name = select_category_id db category_name"

definition category_not_found :: "string \<Rightarrow> string" where
  "category_not_found category_name =
     ''Category '' @ [CHR 0x27] @ category_name @ [CHR 0x27]
       @ '' not found. Please select a valid category.''"

definition add_expense ::
  "ExpenseTrackerDB \<Rightarrow> py_float \<Rightarrow> string \<Rightarrow> string \<Rightarrow> string \<Rightarrow> bool \<times> ExpenseTrackerDB" where
  "add_expense self amt category_name d descr =
     (case conn self of
        None \<Rightarrow> (False, self)
      | Some db \<Rightarrow>
          (case get_category_id db category_name of
             Inl e \<Rightarrow> (False, showerror ''Database Error'' (''Failed to add expense: '' @ str_error e) self)
           | Inr None \<Rightarrow> (False, showerror ''Error'' (category_not_found category_name) self)
           | Inr (Some cid) \<Rightarrow>
               (case insert_expense db amt cid d descr of
                  Inl e \<Rightarrow> (False, showerror ''Database Error''
                                     (''Failed to add expense: '' @ str_error e) self)
                | Inr db' \<Rightarrow> (True, self\<lparr>conn := Some db'\<rparr>))))"

definition get_expenses ::
  "ExpenseTrackerDB \<Rightarrow> string option \<Rightarrow> string option \<Rightarrow> string option
     \<Rightarrow> expense_tuple list \<times> ExpenseTrackerDB" where
  "get_expenses self start_date end_date category_name =
     (case conn self of
        None \<Rightarrow> ([], self)
      | Some db \<Rightarrow>
          (let conds = append_if Name_eq category_name
                         (append_if Date_le end_date (append_if Date_ge start_date [])) in
           case from_expenses_join_categories db of
             Inl e \<Rightarrow> ([], showerror ''Database Error''
                             (''Failed to retrieve expenses: '' @ str_error e) self)
           | Inr rows \<Rightarrow>
               (map select_expense (order_by_date_desc (where_clause conds rows)), self)))"

definition get_expense_by_id ::
  "ExpenseTrackerDB \<Rightarrow> int \<Rightarrow> expense_tuple option \<times> ExpenseTrackerDB" where
  "get_expense_by_id self expense_id =
     (case conn self of
        None \<Rightarrow> (None, self)
      | Some db \<Rightarrow>
          (case from_expenses_join_categories db of
             Inl e \<Rightarrow> (None, showerror ''Database Error''
                               (''Failed to retrieve expense by ID: '' @ str_error e) self)
           | Inr rows \<Rightarrow>
               (map_option select_expense (find (\<lambda>(e, c). exp_id e = expense_id) rows), self)))"

definition update_expense ::
  "ExpenseTrackerDB \<Rightarrow> int \<Rightarrow> py_float \<Rightarrow> string \<Rightarrow> string \<Rightarrow> string \<Rightarrow> bool \<times> ExpenseTrackerDB" where
  "update_expense self expense_id amt category_name d descr =
     (case conn self of
        None \<Rightarrow> (False, self)
      | Some db \<Rightarrow>
          (case get_category_id db category_name of
             Inl e \<Rightarrow> (False, showerror ''Database Error''
                                (''Failed to update expense: '' @ str_error e) self)
           | Inr None \<Rightarrow> (False, showerror ''Error'' (category_not_found category_name) self)
           | Inr (Some cid) \<Rightarrow>
               (case update_expenses db amt cid d descr expense_id of
                  Inl e \<Rightarrow> (False, showerror ''Database Error''
                                     (''Failed to update expense: '' @ str_error e) self)
                | Inr db' \<Rightarrow> (True, self\<lparr>conn := Some db'\<rparr>))))"

text \<open>
  \<^verbatim>\<open>delete_expense\<close> returns \<^verbatim>\<open>True\<close>, \<^verbatim>\<open>False\<close> or, from its \<^verbatim>\<open>except\<close> branch, the
  empty list \<^verbatim>\<open>[]\<close>.
\<close>

datatype py_value = PyBool bool | PyEmptyList

definition delete_expense :: "ExpenseTrackerDB \<Rightarrow> int \<Rightarrow> py_value \<times> ExpenseTrackerDB" where
  "delete_expense self expense_id =
     (case conn self of
        None \<Rightarrow> (PyBool False, self)
      | Some db \<Rightarrow>
          (case delete_from_expenses db expense_id of
             Inl e \<Rightarrow> (PyEmptyList, showerror ''Database Error''
                                      (''Failed to delete expense: '' @ str_error e) self)
           | Inr db' \<Rightarrow> (PyBool True, self\<lparr>conn := Some db'\<rparr>)))"

definition get_categories :: "ExpenseTrackerDB \<Rightarrow> string list \<times> ExpenseTrackerDB" where
  "get_categories self =
     (case conn self of
        None \<Rightarrow> ([], self)
      | Some db \<Rightarrow>
          (case table_categories db of
             Inl e \<Rightarrow> ([], showerror ''Database Error''
                             (''Failed to retrieve categories: '' @ str_error e) self)
           | Inr cs \<Rightarrow> (sort (map cat_name cs), self)))"

definition get_spending_by_category ::
  "(py_float list \<Rightarrow> 'v) \<Rightarrow> ExpenseTrackerDB \<Rightarrow> string option \<Rightarrow> string option
     \<Rightarrow> (string \<times> 'v) list \<times> ExpenseTrackerDB" where
  "get_spending_by_category sql_sum self start_date end_date =
     (case conn self of
        None \<Rightarrow> ([], self)
      | Some db \<Rightarrow>
          (let conds = append_if Date_le end_date (append_if Date_ge start_date []) in
           case from_expenses_join_categories db of
             Inl e \<Rightarrow> ([], showerror ''Database Error''
                             (''Failed to get spending by category: '' @ str_error e) self)
           | Inr rows \<Rightarrow> (dict_of_rows (group_by_name_sum sql_sum (where_clause conds rows)), self)))"

subsection \<open>Input validation of the presentation layer\<close>



subsection \<open>Handlers of the presentation layer\<close>

text \<open>
  The part of \<^verbatim>\<open>ExpenseTrackerApp\<close> that reaches the store: the store itself, the
  four input widgets, the values of the category dropdown, the rows of the list view
  and the row that has the focus, and the calls of \<^verbatim>\<open>messagebox.showwarning\<close>. The
  handlers' calls of \<^verbatim>\<open>messagebox.showerror\<close> go where the store's go, to its
  \<open>dialogs\<close>. The status label, colours and layout are left out. \<open>today\<close> is
  \<^verbatim>\<open>datetime.date.today()\<close> as the date picker shows it, and \<open>askyesno\<close> is the answer
  to the confirmation dialog.
\<close>

record ExpenseTrackerApp =
  db :: ExpenseTrackerDB
  amount_entry :: string
  category_var :: string
  category_values :: "string list"
  date_entry :: string
  description_entry :: string
  expense_tree :: "expense_tuple list"
  focus :: "expense_tuple option"
  warnings :: "(string \<times> string) list"






subsection \<open>An engine that adds doubles\<close>





subsection \<open>Constraints of the schema\<close>

text \<open>
  What the engine keeps true of the categories table: \<^verbatim>\<open>id\<close> is the primary key, so
  the ids are unique and the rows lie in ascending id, and \<^verbatim>\<open>name\<close> is \<^verbatim>\<open>UNIQUE\<close>.
\<close>

definition primary_key_categories :: "category list \<Rightarrow> bool" where
  "primary_key_categories cs = sorted_wrt (<) (map cat_id cs)"

definition unique_name :: "category list \<Rightarrow> bool" where
  "unique_name cs = distinct (map cat_name cs)"

subsection \<open>Stores to run the operations on\<close>

text \<open>
  Two categories and three expenses, among them the two of the scenario
  (50.00 on Food on 2024-01-10, 20.00 on Food on 2024-01-12).
\<close>

definition demo_tables :: tables where
  "demo_tables =
     \<lparr>categories = Some [\<lparr>cat_id = 1, cat_name = ''Food''\<rparr>, \<lparr>cat_id = 2, cat_name = ''Rent''\<rparr>],
      expenses = Some
        [\<lparr>exp_id = 1, amount = Finite 50, category_id = Some 1, date = ''2024-01-10'',
          description = ''Lunch''\<rparr>,
         \<lparr>exp_id = 2, amount = Finite 20, category_id = Some 1, date = ''2024-01-12'',
          description = []\<rparr>,
         \<lparr>exp_id = 3, amount = Finite 900, category_id = Some 2, date = ''2024-01-11'',
          description = ''January''\<rparr>],
      seq_categories = 2, seq_expenses = 3\<rparr>"

definition demo :: ExpenseTrackerDB where
  "demo = \<lparr>conn = Some (Database demo_tables), dialogs = [], stdout = []\<rparr>"




section \<open>Properties\<close>

subsection \<open>Facts about the statements\<close>

lemma set_join_rows:
  "set (join_rows es cs) =
     {(e, c). e \<in> set es \<and> c \<in> set cs \<and> category_id e = Some (cat_id c)}"
  by (auto simp: join_rows_def)

lemma find_deleted:
  "find (\<lambda>(e, c). exp_id e = i) (join_rows (filter (\<lambda>e. exp_id e \<noteq> i) es) cs) = None"
  by (auto simp: find_None_iff set_join_rows)

subsection \<open>Deleting\<close>

text \<open>
  Claim C7. After \<open>delete_expense\<close> has returned \<^verbatim>\<open>True\<close> for an id, \<open>get_expense_by_id\<close>
  finds nothing under that id, and a second \<open>delete_expense\<close> of the same id, which is
  no longer there, returns \<^verbatim>\<open>True\<close> again.
\<close>

theorem delete_then_absent:
  assumes "delete_expense self i = (PyBool True, self')"
  shows "fst (get_expense_by_id self' i) = None \<and> fst (delete_expense self' i) = PyBool True"
  using assms
  by (auto simp: delete_expense_def delete_from_expenses_def get_expense_by_id_def
      from_expenses_join_categories_def table_expenses_def table_categories_def find_deleted
      split: option.splits db_file.splits sum.splits)

theorem delete_then_absent_witness:
  "fst (get_expense_by_id demo 2) = Some (2, Finite 20, ''Food'', ''2024-01-12'', [])
   \<and> fst (delete_expense demo 2) = PyBool True
   \<and> fst (get_expense_by_id (snd (delete_expense demo 2)) 2) = None
   \<and> fst (delete_expense (snd (delete_expense demo 2)) 2) = PyBool True"
proof -
  have ok: "delete_expense demo 2 = (PyBool True, snd (delete_expense demo 2))"
    by (simp add: delete_expense_def delete_from_expenses_def demo_def demo_tables_def)
  have before: "fst (get_expense_by_id demo 2) = Some (2, Finite 20, ''Food'', ''2024-01-12'', [])"
    by (simp add: get_expense_by_id_def from_expenses_join_categories_def table_expenses_def
        table_categories_def join_rows_def demo_def demo_tables_def)
  from delete_then_absent [OF ok] before ok show ?thesis
    by (metis fst_conv)
qed

subsection \<open>Empty filter arguments\<close>

text \<open>
  Claim C9. An empty string given for \<open>start_date\<close>, \<open>end_date\<close> or \<open>category_name\<close>
  of \<open>get_expenses\<close>, or for \<open>start_date\<close> or \<open>end_date\<close> of
  \<open>get_spending_by_category\<close>, gives the result of leaving the argument out, whatever
  the other arguments are. So the empty category name selects every expense.
\<close>

theorem empty_string_filter_is_absent:
  "get_expenses self (Some []) e c = get_expenses self None e c
   \<and> get_expenses self s (Some []) c = get_expenses self s None c
   \<and> get_expenses self s e (Some []) = get_expenses self s e None
   \<and> get_expenses self None None (Some []) = get_expenses self None None None
   \<and> get_spending_by_category sql_sum self (Some []) e
       = get_spending_by_category sql_sum self None e
   \<and> get_spending_by_category sql_sum self s (Some [])
       = get_spending_by_category sql_sum self s None"
  by (simp add: get_expenses_def get_spending_by_category_def Let_def split: option.split)

lemma find_name_None:
  "name \<notin> set (map cat_name cs) \<Longrightarrow> find (\<lambda>c. cat_name c = name) cs = None"
  by (auto simp: find_None_iff)

lemma find_name_Some:
  "name \<in> set (map cat_name cs) \<Longrightarrow> \<exists>k. find (\<lambda>c. cat_name c = name) cs = Some k \<and> k \<in> set cs \<and> cat_name k = name"
  by (induction cs) auto

lemma fst_get_expenses_conn:
  "conn self' = conn self \<Longrightarrow> fst (get_expenses self' s e c) = fst (get_expenses self s e c)"
  by (simp add: get_expenses_def Let_def split: option.split sum.split)

lemma unknown_category_id:
  assumes "category_name \<notin> set (fst (get_categories self))" and "conn self = Some dbf"
  shows "get_category_id dbf category_name = Inr None \<or> (\<exists>e. get_category_id dbf category_name = Inl e)"
proof (cases "table_categories dbf")
  case (Inl e)
  then show ?thesis by (simp add: get_category_id_def select_category_id_def)
next
  case (Inr cs)
  with assms have "category_name \<notin> set (map cat_name cs)"
    by (simp add: get_categories_def)
  with Inr show ?thesis
    by (simp add: get_category_id_def select_category_id_def find_name_None)
qed

lemma add_expense_unresolved:
  assumes "get_category_id dbf category_name = Inr None \<or> (\<exists>e. get_category_id dbf category_name = Inl e)"
    and "conn self = Some dbf"
  shows "fst (add_expense self amt category_name d descr) = False"
    and "conn (snd (add_expense self amt category_name d descr)) = conn self"
  using assms by (auto simp: add_expense_def showerror_def)

lemma update_expense_unresolved:
  assumes "get_category_id dbf category_name = Inr None \<or> (\<exists>e. get_category_id dbf category_name = Inl e)"
    and "conn self = Some dbf"
  shows "fst (update_expense self i amt category_name d descr) = False"
    and "conn (snd (update_expense self i amt category_name d descr)) = conn self"
  using assms by (auto simp: update_expense_def showerror_def)


subsection \<open>Adding under an unknown category\<close>

text \<open>
  Claim C6. In every state of the store, when the category name is not among the names
  that \<open>get_categories\<close> returns, \<open>add_expense\<close> returns \<^verbatim>\<open>False\<close>, the database
  behind the connection is the one it was, and \<open>get_expenses\<close> returns as many
  records after the call as before it.
\<close>

theorem add_expense_unknown_category:
  assumes "category_name \<notin> set (fst (get_categories self))"
  shows "fst (add_expense self amt category_name d descr) = False
    \<and> conn (snd (add_expense self amt category_name d descr)) = conn self
    \<and> length (fst (get_expenses (snd (add_expense self amt category_name d descr)) None None None))
        = length (fst (get_expenses self None None None))"
proof -
  have r: "fst (add_expense self amt category_name d descr) = False
    \<and> conn (snd (add_expense self amt category_name d descr)) = conn self"
  proof (cases "conn self")
    case None
    then show ?thesis by (simp add: add_expense_def)
  next
    case (Some dbf)
    from unknown_category_id [OF assms Some] Some show ?thesis
      by (simp add: add_expense_unresolved)
  qed
  then have "fst (get_expenses (snd (add_expense self amt category_name d descr)) None None None)
      = fst (get_expenses self None None None)"
    by (intro fst_get_expenses_conn) simp
  with r show ?thesis
    by simp
qed

theorem add_expense_unknown_category_witness:
  "''Travel'' \<notin> set (fst (get_categories demo))
   \<and> fst (add_expense demo (Finite 12) ''Travel'' ''2024-02-01'' ''Bus'') = False
   \<and> conn (snd (add_expense demo (Finite 12) ''Travel'' ''2024-02-01'' ''Bus'')) = conn demo
   \<and> length (fst (get_expenses (snd (add_expense demo (Finite 12) ''Travel'' ''2024-02-01'' ''Bus'')) None None None))
        = length (fst (get_expenses demo None None None))"
proof -
  have h: "''Travel'' \<notin> set (fst (get_categories demo))"
    by (simp add: get_categories_def table_categories_def demo_def demo_tables_def)
  from add_expense_unknown_category [OF h] h show ?thesis
    by simp
qed



subsection \<open>Updating\<close>

text \<open>
  Claim C4 as stated fails: the store \<open>demo\<close> has no expense 99, and \<open>update_expense\<close>
  of id 99 under the existing category Food returns \<^verbatim>\<open>True\<close>. The \<^verbatim>\<open>UPDATE\<close>
  statement matches no row, which is no error, and the method never looks at the
  number of rows it changed.
\<close>

theorem update_missing_id_counterexample:
  "\<not> (fst (get_expense_by_id demo 99) = None
        \<longrightarrow> fst (update_expense demo 99 (Finite 5) ''Food'' ''2024-02-01'' ''Snack'') = False)"
  by (simp add: get_expense_by_id_def update_expense_def update_expenses_def update_row_def
      get_category_id_def select_category_id_def from_expenses_join_categories_def
      table_expenses_def table_categories_def join_rows_def demo_def demo_tables_def)

lemma update_row_other:
  "i \<notin> set (map exp_id es) \<Longrightarrow> map (update_row amt cid d descr i) es = es"
  by (induction es) (auto simp: update_row_def)

text \<open>
  Claim C4, amended. When the category name is not among the names that
  \<open>get_categories\<close> returns, \<open>update_expense\<close> returns \<^verbatim>\<open>False\<close> and leaves the
  database as it was; when the categories table can be read and lacks the name, the
  caller is told by the error dialog "Category ... not found". When the category
  resolves and no expense has the id, \<open>update_expense\<close> returns \<^verbatim>\<open>True\<close> and the
  state is the one it was.
\<close>

theorem update_expense_failure:
  "(category_name \<notin> set (fst (get_categories self))
      \<longrightarrow> fst (update_expense self i amt category_name d descr) = False
        \<and> conn (snd (update_expense self i amt category_name d descr)) = conn self)
   \<and> (conn self = Some (Database tb) \<and> categories tb = Some cs
        \<and> category_name \<notin> set (map cat_name cs)
      \<longrightarrow> update_expense self i amt category_name d descr
            = (False, showerror ''Error'' (category_not_found category_name) self))
   \<and> (conn self = Some (Database tb) \<and> categories tb = Some cs \<and> expenses tb = Some es
        \<and> category_name \<in> set (map cat_name cs) \<and> i \<notin> set (map exp_id es)
      \<longrightarrow> update_expense self i amt category_name d descr = (True, self))"
proof -
  have one: "fst (update_expense self i amt category_name d descr) = False
        \<and> conn (snd (update_expense self i amt category_name d descr)) = conn self"
    if a: "category_name \<notin> set (fst (get_categories self))"
  proof (cases "conn self")
    case None
    then show ?thesis by (simp add: update_expense_def)
  next
    case (Some dbf)
    from unknown_category_id [OF a Some] Some show ?thesis
      by (simp add: update_expense_unresolved)
  qed
  have two: "update_expense self i amt category_name d descr
            = (False, showerror ''Error'' (category_not_found category_name) self)"
    if "conn self = Some (Database tb) \<and> categories tb = Some cs
        \<and> category_name \<notin> set (map cat_name cs)"
    using that
    by (simp add: update_expense_def get_category_id_def select_category_id_def
        table_categories_def find_name_None)
  have three: "update_expense self i amt category_name d descr = (True, self)"
    if a: "conn self = Some (Database tb) \<and> categories tb = Some cs \<and> expenses tb = Some es
        \<and> category_name \<in> set (map cat_name cs) \<and> i \<notin> set (map exp_id es)"
  proof -
    from a obtain k where k: "find (\<lambda>c. cat_name c = category_name) cs = Some k"
    using find_name_Some by blast
  from a have "map (update_row amt (cat_id k) d descr i) es = es"
    by (intro update_row_other) simp
    with a k show ?thesis
      by (simp add: update_expense_def get_category_id_def select_category_id_def
          table_categories_def update_expenses_def)
  qed
  from one two three show ?thesis
    by blast
qed

theorem update_expense_failure_witness:
  "''Travel'' \<notin> set (fst (get_categories demo))
   \<and> fst (update_expense demo 2 (Finite 5) ''Travel'' ''2024-02-01'' ''Bus'') = False
   \<and> conn (snd (update_expense demo 2 (Finite 5) ''Travel'' ''2024-02-01'' ''Bus'')) = conn demo
   \<and> update_expense demo 2 (Finite 5) ''Travel'' ''2024-02-01'' ''Bus''
       = (False, showerror ''Error'' (category_not_found ''Travel'') demo)
   \<and> update_expense demo 99 (Finite 5) ''Food'' ''2024-02-01'' ''Snack'' = (True, demo)"
proof -
  have h: "''Travel'' \<notin> set (fst (get_categories demo))"
    by (simp add: get_categories_def table_categories_def demo_def demo_tables_def)
  have c: "conn demo = Some (Database demo_tables)"
    by (simp add: demo_def)
  have cs: "categories demo_tables
     = Some [\<lparr>cat_id = 1, cat_name = ''Food''\<rparr>, \<lparr>cat_id = 2, cat_name = ''Rent''\<rparr>]"
    by (simp add: demo_tables_def)
  obtain es where es: "expenses demo_tables = Some es" "99 \<notin> set (map exp_id es)"
    by (simp add: demo_tables_def)
  from update_expense_failure [of "''Travel''" demo 2 "Finite 5" "''2024-02-01''" "''Bus''" demo_tables
      "[\<lparr>cat_id = 1, cat_name = ''Food''\<rparr>, \<lparr>cat_id = 2, cat_name = ''Rent''\<rparr>]" es]
    update_expense_failure [of "''Food''" demo 99 "Finite 5" "''2024-02-01''" "''Snack''" demo_tables
      "[\<lparr>cat_id = 1, cat_name = ''Food''\<rparr>, \<lparr>cat_id = 2, cat_name = ''Rent''\<rparr>]" es]
    h c cs es
  show ?thesis by (simp add: showerror_def)
qed

subsection \<open>Storage errors\<close>

text \<open>
  Claim C8 fails for \<open>delete_expense\<close>. On a store opened on a file that is not a
  database every statement raises \<^verbatim>\<open>sqlite3.Error\<close>. There \<open>add_expense\<close> and
  \<open>update_expense\<close> return \<^verbatim>\<open>False\<close>, while the \<^verbatim>\<open>except\<close> branch of
  \<open>delete_expense\<close> returns the empty list \<^verbatim>\<open>[]\<close>, not \<^verbatim>\<open>False\<close>.
\<close>

theorem delete_expense_storage_error:
  "fst (delete_expense (init (Inr NotADatabase)) 1) = PyEmptyList
   \<and> fst (delete_expense (init (Inr NotADatabase)) 1) \<noteq> PyBool False
   \<and> fst (add_expense (init (Inr NotADatabase)) (Finite 5) ''Food'' ''2024-02-01'' []) = False
   \<and> fst (update_expense (init (Inr NotADatabase)) 1 (Finite 5) ''Food'' ''2024-02-01'' []) = False"
  by (simp add: delete_expense_def delete_from_expenses_def init_def initialize_def connect_def
      create_tables_def create_categories_def showerror_def add_expense_def update_expense_def
      get_category_id_def select_category_id_def table_categories_def)

subsection \<open>Initialization\<close>

lemma insert_or_ignore_category_Database:
  assumes "categories tb = Some cs"
  shows "\<exists>tb' cs'. insert_or_ignore_category (Database tb) name = Inr (Database tb')
           \<and> categories tb' = Some cs' \<and> expenses tb' = expenses tb
           \<and> cs' = (if name \<in> set (map cat_name cs) then cs
                    else cs @ [\<lparr>cat_id = new_rowid (map cat_id cs) (seq_categories tb),
                                 cat_name = name\<rparr>])"
  using assms by (simp add: insert_or_ignore_category_def Let_def)

lemma insert_categories_Database:
  assumes "categories tb = Some cs"
  shows "\<exists>tb' cs'. conn (insert_categories names (Database tb) self) = Some (Database tb')
           \<and> categories tb' = Some cs' \<and> expenses tb' = expenses tb
           \<and> set (map cat_name cs') = set (map cat_name cs) \<union> set names
           \<and> (set names \<subseteq> set (map cat_name cs) \<longrightarrow> cs' = cs)
           \<and> (distinct (map cat_name cs) \<longrightarrow> distinct (map cat_name cs'))"
  using assms
proof (induction names arbitrary: tb cs)
  case Nil
  then show ?case by simp
next
  case (Cons name names)
  from insert_or_ignore_category_Database [OF Cons.prems, of name]
  obtain tb1 cs1 where step: "insert_or_ignore_category (Database tb) name = Inr (Database tb1)"
    and cs1: "categories tb1 = Some cs1" and es1: "expenses tb1 = expenses tb"
    and eq: "cs1 = (if name \<in> set (map cat_name cs) then cs
                    else cs @ [\<lparr>cat_id = new_rowid (map cat_id cs) (seq_categories tb),
                                 cat_name = name\<rparr>])"
    by blast
  from Cons.IH [OF cs1] obtain tb' cs' where
    r: "conn (insert_categories names (Database tb1) self) = Some (Database tb')"
      "categories tb' = Some cs'" "expenses tb' = expenses tb1"
      "set (map cat_name cs') = set (map cat_name cs1) \<union> set names"
      "set names \<subseteq> set (map cat_name cs1) \<longrightarrow> cs' = cs1"
      "distinct (map cat_name cs1) \<longrightarrow> distinct (map cat_name cs')"
    by blast
  have a: "set (map cat_name cs1) = insert name (set (map cat_name cs))"
    using eq by auto
  have b: "name \<in> set (map cat_name cs) \<Longrightarrow> cs1 = cs"
    using eq by simp
  have c: "distinct (map cat_name cs) \<Longrightarrow> distinct (map cat_name cs1)"
    using eq by auto
  have "conn (insert_categories (name # names) (Database tb) self) = Some (Database tb')"
    using step r(1) by simp
  moreover have "set (map cat_name cs') = set (map cat_name cs) \<union> set (name # names)"
    using r(4) a by auto
  moreover have "set (name # names) \<subseteq> set (map cat_name cs) \<longrightarrow> cs' = cs"
    using r(5) a b by auto
  moreover have "distinct (map cat_name cs) \<longrightarrow> distinct (map cat_name cs')"
    using r(6) c by blast
  ultimately show ?case
    using r(2,3) es1 by auto
qed

lemma create_categories_Database:
  "\<exists>tb1. create_categories (Database tb) = Inr (Database tb1)
     \<and> categories tb1 = Some (case categories tb of None \<Rightarrow> [] | Some cs \<Rightarrow> cs)
     \<and> expenses tb1 = expenses tb"
  by (cases "categories tb") (simp_all add: create_categories_def)

lemma create_expenses_Database:
  "\<exists>tb2. create_expenses (Database tb1) = Inr (Database tb2)
     \<and> categories tb2 = categories tb1 \<and> expenses tb2 \<noteq> None"
  by (cases "expenses tb1") (simp_all add: create_expenses_def)

lemma initialize_Database:
  assumes "conn self = Some (Database tb)"
  shows "\<exists>tb' cs'. conn (initialize self) = Some (Database tb')
           \<and> categories tb' = Some cs' \<and> expenses tb' \<noteq> None
           \<and> set default_categories \<subseteq> set (map cat_name cs')
           \<and> (\<forall>cs. categories tb = Some cs \<and> set default_categories \<subseteq> set (map cat_name cs)
                 \<longrightarrow> cs' = cs)
           \<and> ((\<forall>cs. categories tb = Some cs \<longrightarrow> distinct (map cat_name cs))
                 \<longrightarrow> distinct (map cat_name cs'))"
proof -
  obtain tb1 cs1 where c1: "create_categories (Database tb) = Inr (Database tb1)"
    and cs1: "categories tb1 = Some cs1" "expenses tb1 = expenses tb"
    and k1: "cs1 = (case categories tb of None \<Rightarrow> [] | Some cs \<Rightarrow> cs)"
    using create_categories_Database [of tb] by blast
  obtain tb2 where c2: "create_expenses (Database tb1) = Inr (Database tb2)"
    and cs2: "categories tb2 = Some cs1" "expenses tb2 \<noteq> None"
    using cs1 create_expenses_Database [of tb1] by auto
  from insert_categories_Database [OF cs2(1), of default_categories self]
  obtain tb' cs' where
    r: "conn (insert_categories default_categories (Database tb2) self) = Some (Database tb')"
      "categories tb' = Some cs'" "expenses tb' = expenses tb2"
      "set (map cat_name cs') = set (map cat_name cs1) \<union> set default_categories"
      "set default_categories \<subseteq> set (map cat_name cs1) \<longrightarrow> cs' = cs1"
      "distinct (map cat_name cs1) \<longrightarrow> distinct (map cat_name cs')"
    by blast
  have i: "initialize self = insert_categories default_categories (Database tb2) self"
    using assms c1 c2
    by (simp add: initialize_def create_tables_def insert_default_categories_def)
  have "\<forall>cs. categories tb = Some cs \<and> set default_categories \<subseteq> set (map cat_name cs)
                 \<longrightarrow> cs' = cs"
    using r(5) k1 by auto
  moreover have "(\<forall>cs. categories tb = Some cs \<longrightarrow> distinct (map cat_name cs))
                 \<longrightarrow> distinct (map cat_name cs')"
    using r(6) k1 by (cases "categories tb") auto
  ultimately show ?thesis
    using i r(1,2,3,4) cs2(2) by auto
qed

lemma get_categories_Database:
  "conn self = Some (Database tb) \<Longrightarrow> categories tb = Some cs
    \<Longrightarrow> fst (get_categories self) = sort (map cat_name cs)"
  by (simp add: get_categories_def table_categories_def)

lemma get_categories_initialize_twice:
  "fst (get_categories (initialize (initialize self))) = fst (get_categories (initialize self))"
proof (cases "conn self")
  case None
  then show ?thesis by (simp add: initialize_def)
next
  case (Some dbf)
  show ?thesis
  proof (cases dbf)
    case NotADatabase
    with Some show ?thesis
      by (simp add: initialize_def create_tables_def create_categories_def showerror_def
          get_categories_def table_categories_def)
  next
    case (Database tb)
    from initialize_Database [of self tb] Some Database
    obtain tb' cs' where 1: "conn (initialize self) = Some (Database tb')"
      "categories tb' = Some cs'" "set default_categories \<subseteq> set (map cat_name cs')"
      by blast
    from initialize_Database [OF 1(1)] 1(2,3)
    obtain tb'' where 2: "conn (initialize (initialize self)) = Some (Database tb'')"
      "categories tb'' = Some cs'"
      by auto
    from 1 2 show ?thesis
      by (simp add: get_categories_Database)
  qed
qed

text \<open>
  Claim C5. Whatever the state of the store, running initialization \<open>n\<close> more times after
  a first run leaves the list that \<open>get_categories\<close> returns, and so its length, as
  the first run left it. When the connection is to a database, the eight default names
  are among the categories after the first run; and when the names in the table were
  unique before (or the table did not exist), no name occurs twice afterwards.
\<close>

theorem initialize_idempotent:
  "fst (get_categories ((initialize ^^ n) (initialize self))) = fst (get_categories (initialize self))
   \<and> length (fst (get_categories ((initialize ^^ n) (initialize self))))
       = length (fst (get_categories (initialize self)))
   \<and> (conn self = Some (Database tb)
        \<longrightarrow> set default_categories \<subseteq> set (fst (get_categories (initialize self))))
   \<and> (conn self = Some (Database tb) \<and> (\<forall>cs. categories tb = Some cs \<longrightarrow> unique_name cs)
        \<longrightarrow> distinct (fst (get_categories ((initialize ^^ n) (initialize self)))))"
proof -
  have same: "fst (get_categories ((initialize ^^ n) (initialize self)))
      = fst (get_categories (initialize self))"
  proof (induction n arbitrary: self)
    case 0
    show ?case by simp
  next
    case (Suc n)
    have "(initialize ^^ Suc n) (initialize self) = (initialize ^^ n) (initialize (initialize self))"
      by (simp add: funpow_swap1)
    then show ?case
      using Suc.IH [of "initialize self"] by (simp add: get_categories_initialize_twice)
  qed
  have present: "set default_categories \<subseteq> set (fst (get_categories (initialize self)))"
    and uniq: "(\<forall>cs. categories tb = Some cs \<longrightarrow> unique_name cs)
        \<longrightarrow> distinct (fst (get_categories (initialize self)))"
    if c: "conn self = Some (Database tb)"
  proof -
    from initialize_Database [OF c]
    obtain tb' cs' where 1: "conn (initialize self) = Some (Database tb')"
      "categories tb' = Some cs'" "set default_categories \<subseteq> set (map cat_name cs')"
      "(\<forall>cs. categories tb = Some cs \<longrightarrow> distinct (map cat_name cs))
                 \<longrightarrow> distinct (map cat_name cs')"
      by blast
    from 1 show "set default_categories \<subseteq> set (fst (get_categories (initialize self)))"
      by (simp add: get_categories_Database)
    from 1 show "(\<forall>cs. categories tb = Some cs \<longrightarrow> unique_name cs)
        \<longrightarrow> distinct (fst (get_categories (initialize self)))"
      by (simp add: get_categories_Database unique_name_def)
  qed
  from same present uniq show ?thesis
    by simp
qed


theorem initialize_idempotent_witness:
  "conn demo = Some (Database demo_tables)
   \<and> categories demo_tables
       = Some [\<lparr>cat_id = 1, cat_name = ''Food''\<rparr>, \<lparr>cat_id = 2, cat_name = ''Rent''\<rparr>]
   \<and> unique_name [\<lparr>cat_id = 1, cat_name = ''Food''\<rparr>, \<lparr>cat_id = 2, cat_name = ''Rent''\<rparr>]
   \<and> fst (get_categories (initialize demo))
       = [''Entertainment'', ''Food'', ''Other'', ''Rent'', ''Salary'', ''Shopping'',
          ''Transport'', ''Utilities'']
   \<and> fst (get_categories ((initialize ^^ 2) (initialize demo)))
       = fst (get_categories (initialize demo))
   \<and> length (fst (get_categories ((initialize ^^ 2) (initialize demo)))) = 8
   \<and> set default_categories \<subseteq> set (fst (get_categories (initialize demo)))
   \<and> distinct (fst (get_categories ((initialize ^^ 2) (initialize demo))))"
proof -
  have c: "conn demo = Some (Database demo_tables)"
    by (simp add: demo_def)
  have u: "\<forall>cs. categories demo_tables = Some cs \<longrightarrow> unique_name cs"
    by (simp add: demo_tables_def unique_name_def)
  have v: "fst (get_categories (initialize demo))
       = [''Entertainment'', ''Food'', ''Other'', ''Rent'', ''Salary'', ''Shopping'',
          ''Transport'', ''Utilities'']"
    by (simp add: demo_def demo_tables_def initialize_def create_tables_def
        create_categories_def create_expenses_def insert_default_categories_def
        default_categories_def insert_or_ignore_category_def new_rowid_def
        get_categories_def table_categories_def)
  have k: "categories demo_tables
       = Some [\<lparr>cat_id = 1, cat_name = ''Food''\<rparr>, \<lparr>cat_id = 2, cat_name = ''Rent''\<rparr>]"
    by (simp add: demo_tables_def)
  have n: "unique_name [\<lparr>cat_id = 1, cat_name = ''Food''\<rparr>, \<lparr>cat_id = 2, cat_name = ''Rent''\<rparr>]"
    by (simp add: unique_name_def)
  from initialize_idempotent [of 2 demo demo_tables] c u v k n show ?thesis
    by simp
qed

subsection \<open>Amounts that are not positive\<close>



lemma get_category_id_found:
  assumes "categories tb = Some cs" and "find (\<lambda>c. cat_name c = category_name) cs = Some k"
  shows "get_category_id (Database tb) category_name = Inr (Some (cat_id k))"
  using assms by (simp add: get_category_id_def select_category_id_def table_categories_def)

lemma add_expense_resolved:
  assumes "conn self = Some (Database tb)" and "expenses tb = Some es"
    and "get_category_id (Database tb) category_name = Inr (Some cid)" and "amt \<noteq> NaN"
  shows "add_expense self amt category_name d descr
        = (True, self\<lparr>conn := Some (Database (tb\<lparr>expenses := Some (es @
             [\<lparr>exp_id = new_rowid (map exp_id es) (seq_expenses tb), amount = amt,
               category_id = Some cid, date = d, description = descr\<rparr>]),
             seq_expenses := new_rowid (map exp_id es) (seq_expenses tb)\<rparr>))\<rparr>)"
  using assms by (simp add: add_expense_def insert_expense_def Let_def)



lemma update_expense_NaN:
  assumes "conn self = Some (Database tb)" and "expenses tb = Some es"
    and "get_category_id (Database tb) category_name = Inr (Some cid)"
    and "i \<in> set (map exp_id es)"
  shows "update_expense self i NaN category_name d descr
        = (False, showerror ''Database Error''
            ''Failed to update expense: NOT NULL constraint failed: expenses.amount'' self)"
  using assms by (simp add: update_expense_def update_expenses_def)







subsection \<open>Listing expenses\<close>

lemma where_clause_filter:
  "where_clause conds rows = filter (\<lambda>r. list_all (\<lambda>k. holds k r) conds) rows"
  by (simp add: where_clause_def)

lemma list_all_append_if:
  "list_all (\<lambda>k. holds k r) (append_if kind arg conds)
     = (list_all (\<lambda>k. holds k r) conds \<and> (\<forall>p. arg = Some p \<and> p \<noteq> [] \<longrightarrow> holds (kind, p) r))"
  by (cases arg) auto

lemma mset_order_by_date_desc: "mset (order_by_date_desc rows) = mset rows"
  by (simp add: order_by_date_desc_def)

lemma sorted_order_by_date_desc:
  "sorted (rev (map (\<lambda>(e, c). date e) (order_by_date_desc rows)))"
  by (simp add: order_by_date_desc_def rev_map)

lemma date_select_expense:
  "map (\<lambda>(i, a, n, d, descr). d) (map select_expense rows) = map (\<lambda>(e, c). date e) rows"
  by (induction rows) auto

lemma join_rows_Nil: "join_rows [] cs = []"
  by (simp add: join_rows_def)

lemma join_rows_Cons:
  "join_rows (e # es) cs
     = map (Pair e) (filter (\<lambda>c. category_id e = Some (cat_id c)) cs) @ join_rows es cs"
  by (simp add: join_rows_def)

lemma join_rows_append: "join_rows (es @ es') cs = join_rows es cs @ join_rows es' cs"
  by (simp add: join_rows_def)

lemma select_one_expense:
  "map f (filter R (map (Pair e) (filter J cs)))
     = concat (map (\<lambda>k. if J k \<and> R (e, k) then [f (e, k)] else []) cs)"
  by (induction cs) simp_all

lemma select_join_rows:
  "map f (filter R (join_rows es cs))
     = concat (map (\<lambda>e. concat (map (\<lambda>k. if category_id e = Some (cat_id k) \<and> R (e, k)
                                            then [f (e, k)] else []) cs)) es)"
  by (induction es) (simp_all add: join_rows_Nil join_rows_Cons select_one_expense)

lemma get_expenses_Database:
  assumes "conn self = Some (Database tb)" and "categories tb = Some cs"
    and "expenses tb = Some es"
  shows "fst (get_expenses self start_date end_date category_name)
     = map select_expense (order_by_date_desc (where_clause
         (append_if Name_eq category_name (append_if Date_le end_date
            (append_if Date_ge start_date []))) (join_rows es cs)))"
  using assms
  by (simp add: get_expenses_def from_expenses_join_categories_def table_expenses_def
      table_categories_def)

text \<open>
  Claim C3. On a connected store with both tables, for every combination of the three
  optional arguments, \<open>get_expenses\<close> returns, each once, the records of the expenses
  joined with their category that satisfy every filter supplied (an argument that is
  absent or empty supplies none, see C9): date not before \<open>start_date\<close>, date not
  after \<open>end_date\<close>, category name equal to \<open>category_name\<close>. The dates of the
  returned list descend.
\<close>

theorem get_expenses_filters:
  assumes "conn self = Some (Database tb)" and "categories tb = Some cs"
    and "expenses tb = Some es"
  shows "mset (fst (get_expenses self start_date end_date category_name))
      = mset [(exp_id x, amount x, cat_name k, date x, description x).
               x \<leftarrow> es, k \<leftarrow> cs,
               category_id x = Some (cat_id k)
               \<and> (\<forall>p. start_date = Some p \<and> p \<noteq> [] \<longrightarrow> p \<le> date x)
               \<and> (\<forall>p. end_date = Some p \<and> p \<noteq> [] \<longrightarrow> date x \<le> p)
               \<and> (\<forall>p. category_name = Some p \<and> p \<noteq> [] \<longrightarrow> cat_name k = p)]
    \<and> sorted (rev (map (\<lambda>(i, a, n, d, descr). d)
                 (fst (get_expenses self start_date end_date category_name))))"
proof -
  let ?conds = "append_if Name_eq category_name (append_if Date_le end_date
            (append_if Date_ge start_date []))"
  let ?R = "\<lambda>r. list_all (\<lambda>k. holds k r) ?conds"
  have g: "fst (get_expenses self start_date end_date category_name)
     = map select_expense (order_by_date_desc (filter ?R (join_rows es cs)))"
    using get_expenses_Database [OF assms] by (simp add: where_clause_filter)
  have R: "?R (x, k) = ((\<forall>p. start_date = Some p \<and> p \<noteq> [] \<longrightarrow> p \<le> date x)
               \<and> (\<forall>p. end_date = Some p \<and> p \<noteq> [] \<longrightarrow> date x \<le> p)
               \<and> (\<forall>p. category_name = Some p \<and> p \<noteq> [] \<longrightarrow> cat_name k = p))" for x k
    by (simp add: list_all_append_if)
  have "mset (fst (get_expenses self start_date end_date category_name))
      = mset (map select_expense (filter ?R (join_rows es cs)))"
    by (simp add: g mset_order_by_date_desc)
  also have "map select_expense (filter ?R (join_rows es cs))
      = [(exp_id x, amount x, cat_name k, date x, description x).
               x \<leftarrow> es, k \<leftarrow> cs,
               category_id x = Some (cat_id k)
               \<and> (\<forall>p. start_date = Some p \<and> p \<noteq> [] \<longrightarrow> p \<le> date x)
               \<and> (\<forall>p. end_date = Some p \<and> p \<noteq> [] \<longrightarrow> date x \<le> p)
               \<and> (\<forall>p. category_name = Some p \<and> p \<noteq> [] \<longrightarrow> cat_name k = p)]"
    unfolding select_join_rows R select_expense.simps by (rule refl)
  finally have one: "mset (fst (get_expenses self start_date end_date category_name))
      = mset [(exp_id x, amount x, cat_name k, date x, description x).
               x \<leftarrow> es, k \<leftarrow> cs,
               category_id x = Some (cat_id k)
               \<and> (\<forall>p. start_date = Some p \<and> p \<noteq> [] \<longrightarrow> p \<le> date x)
               \<and> (\<forall>p. end_date = Some p \<and> p \<noteq> [] \<longrightarrow> date x \<le> p)
               \<and> (\<forall>p. category_name = Some p \<and> p \<noteq> [] \<longrightarrow> cat_name k = p)]" .
  have two: "sorted (rev (map (\<lambda>(i, a, n, d, descr). d)
                 (fst (get_expenses self start_date end_date category_name))))"
    unfolding g date_select_expense by (rule sorted_order_by_date_desc)
  from one two show ?thesis
    by (rule conjI)
qed

theorem get_expenses_filters_witness:
  "conn demo = Some (Database demo_tables)
   \<and> mset (fst (get_expenses demo (Some ''2024-01-11'') (Some ''2024-01-31'') (Some ''Food'')))
       = mset [(2, Finite 20, ''Food'', ''2024-01-12'', [])]
   \<and> sorted (rev (map (\<lambda>(i, a, n, d, descr). d)
        (fst (get_expenses demo (Some ''2024-01-11'') (Some ''2024-01-31'') (Some ''Food'')))))
   \<and> mset (fst (get_expenses demo None None None))
       = mset [(1, Finite 50, ''Food'', ''2024-01-10'', ''Lunch''), (2, Finite 20, ''Food'', ''2024-01-12'', []),
               (3, Finite 900, ''Rent'', ''2024-01-11'', ''January'')]
   \<and> sorted (rev (map (\<lambda>(i, a, n, d, descr). d) (fst (get_expenses demo None None None))))"
proof -
  have c: "conn demo = Some (Database demo_tables)"
    by (simp add: demo_def)
  have cs: "categories demo_tables
     = Some [\<lparr>cat_id = 1, cat_name = ''Food''\<rparr>, \<lparr>cat_id = 2, cat_name = ''Rent''\<rparr>]"
    by (simp add: demo_tables_def)
  have es: "expenses demo_tables = Some
        [\<lparr>exp_id = 1, amount = Finite 50, category_id = Some 1, date = ''2024-01-10'',
          description = ''Lunch''\<rparr>,
         \<lparr>exp_id = 2, amount = Finite 20, category_id = Some 1, date = ''2024-01-12'',
          description = []\<rparr>,
         \<lparr>exp_id = 3, amount = Finite 900, category_id = Some 2, date = ''2024-01-11'',
          description = ''January''\<rparr>]"
    by (simp add: demo_tables_def)
  from get_expenses_filters [OF c cs es, of "Some ''2024-01-11''" "Some ''2024-01-31''" "Some ''Food''"]
  have one: "mset (fst (get_expenses demo (Some ''2024-01-11'') (Some ''2024-01-31'') (Some ''Food'')))
       = mset [(2, Finite 20, ''Food'', ''2024-01-12'', [])]
   \<and> sorted (rev (map (\<lambda>(i, a, n, d, descr). d)
        (fst (get_expenses demo (Some ''2024-01-11'') (Some ''2024-01-31'') (Some ''Food'')))))"
    by simp
  from get_expenses_filters [OF c cs es, of None None None]
  have two: "mset (fst (get_expenses demo None None None))
       = mset [(1, Finite 50, ''Food'', ''2024-01-10'', ''Lunch''), (2, Finite 20, ''Food'', ''2024-01-12'', []),
               (3, Finite 900, ''Rent'', ''2024-01-11'', ''January'')]
   \<and> sorted (rev (map (\<lambda>(i, a, n, d, descr). d) (fst (get_expenses demo None None None))))"
    by simp
  from c one two show ?thesis
    by blast
qed

subsection \<open>Adding an expense\<close>

lemma new_rowid_fresh: "new_rowid ids seq \<notin> set ids"
proof (cases ids)
  case Nil
  then show ?thesis by simp
next
  case (Cons i "is")
  have m: "fold max is i = Max (set (i # is))"
    by (simp only: Max.set_eq_fold)
  have "j < new_rowid ids seq" if "j \<in> set ids" for j
  proof -
    from that Cons have "j \<le> Max (set (i # is))"
      by (intro Max_ge) simp_all
    with m Cons show ?thesis
      by (simp add: new_rowid_def)
  qed
  then show ?thesis
    by blast
qed

lemma filter_same_key:
  "distinct (map f xs) \<Longrightarrow> x \<in> set xs \<Longrightarrow> filter (\<lambda>y. f x = f y) xs = [x]"
proof (induction xs)
  case Nil
  then show ?case by simp
next
  case (Cons a xs)
  show ?case
  proof (cases "x = a")
    case True
    from Cons.prems(1) have "f a \<notin> f ` set xs"
      by simp
    then have "filter (\<lambda>y. f a = f y) xs = []"
      by (auto simp: filter_empty_conv)
    with True show ?thesis by simp
  next
    case False
    with Cons.prems have x: "x \<in> set xs" and "f a \<notin> f ` set xs"
      by simp_all
    then have "f x \<noteq> f a"
      by (metis imageI)
    with Cons.IH Cons.prems(1) x show ?thesis
      by simp
  qed
qed

lemma find_SomeD: "find P xs = Some k \<Longrightarrow> k \<in> set xs \<and> P k"
  by (induction xs) (simp_all split: if_splits)

lemma join_rows_category:
  assumes "primary_key_categories cs" and "k \<in> set cs" and "category_id e = Some (cat_id k)"
  shows "join_rows [e] cs = [(e, k)]"
proof -
  from assms(1) have "distinct (map cat_id cs)"
    by (simp add: primary_key_categories_def strict_sorted_iff)
  from filter_same_key [OF this assms(2)]
  have "filter (\<lambda>c. category_id e = Some (cat_id c)) cs = [k]"
    by (simp add: assms(3))
  then show ?thesis
    by (simp add: join_rows_def)
qed

lemma set_get_expenses_ids:
  assumes "conn self = Some (Database tb)" and "categories tb = Some cs"
    and "expenses tb = Some es"
  shows "set (map fst (fst (get_expenses self None None None))) \<subseteq> set (map exp_id es)"
proof -
  have "fst (get_expenses self None None None)
      = map select_expense (order_by_date_desc (join_rows es cs))"
    using get_expenses_Database [OF assms, of None None None] by (simp add: where_clause_def)
  moreover have "set (order_by_date_desc (join_rows es cs)) = set (join_rows es cs)"
    by (simp add: order_by_date_desc_def)
  ultimately show ?thesis
    by (auto simp: set_join_rows)
qed

text \<open>
  Claim C2. On a connected store with both tables whose category ids are unique, adding
  an expense under an existing category name succeeds, whatever the date and the
  description are and for every amount that is not NaN, so for every positive one.
  Afterwards \<open>get_expenses\<close> returns the records it returned before and exactly one
  more, which carries the amount, the category name, the date and the description given
  and an id that no record had; and the dates of the list descend.
\<close>

theorem add_expense_one_more_record:
  assumes "conn self = Some (Database tb)" and "categories tb = Some cs"
    and "expenses tb = Some es" and "primary_key_categories cs"
    and "category_name \<in> set (map cat_name cs)" and "amt \<noteq> NaN"
  shows "fst (add_expense self amt category_name d descr) = True
    \<and> (\<exists>v. mset (fst (get_expenses (snd (add_expense self amt category_name d descr))
                        None None None))
            = add_mset (v, amt, category_name, d, descr)
                (mset (fst (get_expenses self None None None)))
          \<and> v \<notin> set (map fst (fst (get_expenses self None None None))))
    \<and> sorted (rev (map (\<lambda>(i, a, n, d, descr). d)
         (fst (get_expenses (snd (add_expense self amt category_name d descr)) None None None))))"
proof -
  from assms(5) obtain k where k: "find (\<lambda>c. cat_name c = category_name) cs = Some k"
    using find_name_Some by blast
  then have kin: "k \<in> set cs" and kname: "cat_name k = category_name"
    using find_SomeD [OF k] by simp_all
  define v where "v = new_rowid (map exp_id es) (seq_expenses tb)"
  define new where "new = \<lparr>exp_id = v, amount = amt, category_id = Some (cat_id k),
    date = d, description = descr\<rparr>"
  define tb' where "tb' = tb\<lparr>expenses := Some (es @ [new]), seq_expenses := v\<rparr>"
  have added: "add_expense self amt category_name d descr = (True, self\<lparr>conn := Some (Database tb')\<rparr>)"
    unfolding tb'_def new_def v_def
    by (rule add_expense_resolved [OF assms(1,3) get_category_id_found [OF assms(2) k] assms(6)])
  have c': "conn (self\<lparr>conn := Some (Database tb')\<rparr>) = Some (Database tb')"
    by simp
  have cs': "categories tb' = Some cs" and es': "expenses tb' = Some (es @ [new])"
    by (simp_all add: tb'_def assms(2))
  have before: "fst (get_expenses self None None None)
      = map select_expense (order_by_date_desc (join_rows es cs))"
    using get_expenses_Database [OF assms(1,2,3), of None None None]
    by (simp add: where_clause_def)
  have after: "fst (get_expenses (self\<lparr>conn := Some (Database tb')\<rparr>) None None None)
      = map select_expense (order_by_date_desc (join_rows (es @ [new]) cs))"
    using get_expenses_Database [OF c' cs' es', of None None None]
    by (simp add: where_clause_def)
  have j: "join_rows [new] cs = [(new, k)]"
    by (rule join_rows_category [OF assms(4) kin]) (simp add: new_def)
  have row: "select_expense (new, k) = (v, amt, category_name, d, descr)"
    unfolding new_def by (simp add: kname)
  have one: "mset (fst (get_expenses (self\<lparr>conn := Some (Database tb')\<rparr>) None None None))
      = add_mset (v, amt, category_name, d, descr) (mset (fst (get_expenses self None None None)))"
    by (simp add: before after mset_order_by_date_desc join_rows_append j row
        del: select_expense.simps)
  have "v \<notin> set (map exp_id es)"
    unfolding v_def by (rule new_rowid_fresh)
  with set_get_expenses_ids [OF assms(1,2,3)]
  have two: "v \<notin> set (map fst (fst (get_expenses self None None None)))"
    by blast
  have three: "sorted (rev (map (\<lambda>(i, a, n, d, descr). d)
         (fst (get_expenses (self\<lparr>conn := Some (Database tb')\<rparr>) None None None))))"
    unfolding after date_select_expense by (rule sorted_order_by_date_desc)
  from one two three show ?thesis
    unfolding added by auto
qed

theorem add_expense_one_more_record_witness:
  "conn demo = Some (Database demo_tables)
   \<and> primary_key_categories [\<lparr>cat_id = 1, cat_name = ''Food''\<rparr>, \<lparr>cat_id = 2, cat_name = ''Rent''\<rparr>]
   \<and> ''Rent'' \<in> set (map cat_name [\<lparr>cat_id = 1, cat_name = ''Food''\<rparr>, \<lparr>cat_id = 2, cat_name = ''Rent''\<rparr>])
   \<and> Finite 30 \<noteq> NaN
   \<and> fst (add_expense demo (Finite 30) ''Rent'' ''2024-01-11'' ''Fee'') = True
   \<and> fst (get_expenses demo None None None)
       = [(2, Finite 20, ''Food'', ''2024-01-12'', []), (3, Finite 900, ''Rent'', ''2024-01-11'', ''January''),
          (1, Finite 50, ''Food'', ''2024-01-10'', ''Lunch'')]
   \<and> fst (get_expenses (snd (add_expense demo (Finite 30) ''Rent'' ''2024-01-11'' ''Fee'')) None None None)
       = [(2, Finite 20, ''Food'', ''2024-01-12'', []), (3, Finite 900, ''Rent'', ''2024-01-11'', ''January''),
          (4, Finite 30, ''Rent'', ''2024-01-11'', ''Fee''), (1, Finite 50, ''Food'', ''2024-01-10'', ''Lunch'')]
   \<and> sorted (rev (map (\<lambda>(i, a, n, d, descr). d)
        (fst (get_expenses (snd (add_expense demo (Finite 30) ''Rent'' ''2024-01-11'' ''Fee'')) None None None))))"
proof -
  have c: "conn demo = Some (Database demo_tables)"
    by (simp add: demo_def)
  have cs: "categories demo_tables
     = Some [\<lparr>cat_id = 1, cat_name = ''Food''\<rparr>, \<lparr>cat_id = 2, cat_name = ''Rent''\<rparr>]"
    by (simp add: demo_tables_def)
  obtain es where es: "expenses demo_tables = Some es"
    by (simp add: demo_tables_def)
  have pk: "primary_key_categories [\<lparr>cat_id = 1, cat_name = ''Food''\<rparr>, \<lparr>cat_id = 2, cat_name = ''Rent''\<rparr>]"
    by (simp add: primary_key_categories_def)
  have n: "''Rent'' \<in> set (map cat_name [\<lparr>cat_id = 1, cat_name = ''Food''\<rparr>, \<lparr>cat_id = 2, cat_name = ''Rent''\<rparr>])"
    by simp
  have nn: "Finite 30 \<noteq> NaN"
    by simp
  note inst = add_expense_one_more_record [OF c cs es pk n nn, of "''2024-01-11''" "''Fee''"]
  have a: "fst (add_expense demo (Finite 30) ''Rent'' ''2024-01-11'' ''Fee'') = True"
    by (rule inst [THEN conjunct1])
  have s: "sorted (rev (map (\<lambda>(i, a, n, d, descr). d)
        (fst (get_expenses (snd (add_expense demo (Finite 30) ''Rent'' ''2024-01-11'' ''Fee'')) None None None))))"
    by (rule inst [THEN conjunct2, THEN conjunct2])
  have g0: "fst (get_expenses demo None None None)
       = [(2, Finite 20, ''Food'', ''2024-01-12'', []), (3, Finite 900, ''Rent'', ''2024-01-11'', ''January''),
          (1, Finite 50, ''Food'', ''2024-01-10'', ''Lunch'')]"
    by (simp add: get_expenses_def from_expenses_join_categories_def table_expenses_def
        table_categories_def join_rows_def where_clause_def order_by_date_desc_def
        demo_def demo_tables_def)
  have g1: "fst (get_expenses (snd (add_expense demo (Finite 30) ''Rent'' ''2024-01-11'' ''Fee'')) None None None)
       = [(2, Finite 20, ''Food'', ''2024-01-12'', []), (3, Finite 900, ''Rent'', ''2024-01-11'', ''January''),
          (4, Finite 30, ''Rent'', ''2024-01-11'', ''Fee''), (1, Finite 50, ''Food'', ''2024-01-10'', ''Lunch'')]"
    by (simp add: get_expenses_def from_expenses_join_categories_def table_expenses_def
        table_categories_def join_rows_def where_clause_def order_by_date_desc_def
        add_expense_def get_category_id_def select_category_id_def insert_expense_def
        new_rowid_def demo_def demo_tables_def)
  from c pk n nn a g0 g1 s show ?thesis
    by (intro conjI)
qed

subsection \<open>Spending by category\<close>

















subsection \<open>Double-precision addition\<close>















end
